theory Spec2Isabelle
  imports Complex_Main
begin

section \<open>Data model (models/analytics.models.ts)\<close>

text \<open>
  A JavaScript \<^verbatim>\<open>number\<close> that holds an amount (a revenue and what is computed from
  it) is NaN, one of the two infinities, or a finite number, which is a real: the
  rounding of IEEE doubles and the sign of zero are outside the model. The operations
  are those of JavaScript on these values: NaN absorbs, the sum of the two infinities and
  their quotient are NaN, a comparison with NaN is false. A \<^verbatim>\<open>number\<close> that holds a
  count or an index is an integer, and the \<^verbatim>\<open>y\<close> values of chart points are reals.
\<close>

datatype number = NaN | NegInfinity | Num real | Infinity

fun addNumber :: "number \<Rightarrow> number \<Rightarrow> number" where
  "addNumber NaN y = NaN"
| "addNumber x NaN = NaN"
| "addNumber (Num a) (Num b) = Num (a + b)"
| "addNumber Infinity NegInfinity = NaN"
| "addNumber NegInfinity Infinity = NaN"
| "addNumber Infinity y = Infinity"
| "addNumber x Infinity = Infinity"
| "addNumber NegInfinity y = NegInfinity"
| "addNumber x NegInfinity = NegInfinity"

fun divideNumber :: "number \<Rightarrow> number \<Rightarrow> number" where
  "divideNumber NaN y = NaN"
| "divideNumber x NaN = NaN"
| "divideNumber (Num a) (Num b) =
     (if b \<noteq> 0 then Num (a / b)
      else if a = 0 then NaN else if 0 < a then Infinity else NegInfinity)"
| "divideNumber (Num a) y = Num 0"
| "divideNumber Infinity (Num b) = (if 0 \<le> b then Infinity else NegInfinity)"
| "divideNumber NegInfinity (Num b) = (if 0 \<le> b then NegInfinity else Infinity)"
| "divideNumber x y = NaN"

fun lessEqNumber :: "number \<Rightarrow> number \<Rightarrow> bool" where
  "lessEqNumber NaN y = False"
| "lessEqNumber x NaN = False"
| "lessEqNumber NegInfinity y = True"
| "lessEqNumber x Infinity = True"
| "lessEqNumber (Num a) (Num b) = (a \<le> b)"
| "lessEqNumber x y = False"

fun lessNumber :: "number \<Rightarrow> number \<Rightarrow> bool" where
  "lessNumber NaN y = False"
| "lessNumber x NaN = False"
| "lessNumber (Num a) (Num b) = (a < b)"
| "lessNumber NegInfinity NegInfinity = False"
| "lessNumber Infinity Infinity = False"
| "lessNumber NegInfinity y = True"
| "lessNumber x Infinity = True"
| "lessNumber x y = False"

text \<open>
  With these, \<open>0\<close>, \<open>+\<close>, \<open>/\<close>, \<open>\<le>\<close> and \<open><\<close> on numbers are the JavaScript
  \<^verbatim>\<open>0\<close>, \<^verbatim>\<open>+\<close>, \<^verbatim>\<open>/\<close>, \<^verbatim>\<open><=\<close> and \<^verbatim>\<open><\<close>. Addition is associative and
  commutative with unit 0, so that \<open>sum_list\<close> is the sum of a list of numbers.
\<close>

instantiation number :: "{comm_monoid_add, inverse, ord}"
begin

definition zero_number :: number where
  "0 = Num 0"

definition plus_number :: "number \<Rightarrow> number \<Rightarrow> number" where
  "x + y = addNumber x y"

definition divide_number :: "number \<Rightarrow> number \<Rightarrow> number" where
  "x div y = divideNumber x y"

definition inverse_number :: "number \<Rightarrow> number" where
  "inverse x = divideNumber (Num 1) x"

definition less_eq_number :: "number \<Rightarrow> number \<Rightarrow> bool" where
  "x \<le> y = lessEqNumber x y"

definition less_number :: "number \<Rightarrow> number \<Rightarrow> bool" where
  "x < y = lessNumber x y"

instance
proof
  fix a b c :: number
  show "a + b + c = a + (b + c)"
    by (cases a; cases b; cases c) (simp_all add: plus_number_def)
  show "a + b = b + a"
    by (cases a; cases b) (simp_all add: plus_number_def)
  show "0 + a = a"
    by (cases a) (simp_all add: plus_number_def zero_number_def)
qed

end

text \<open>
  A \<^verbatim>\<open>moment.Moment\<close> is either an instant (its \<^verbatim>\<open>valueOf()\<close>, milliseconds since
  the epoch) or an invalid date.
\<close>

datatype moment = Moment int | InvalidMoment

fun isValid :: "moment \<Rightarrow> bool" where
  "isValid (Moment t) = True"
| "isValid InvalidMoment = False"

text \<open>
  \<^verbatim>\<open>a.isBetween(from, to)\<close> of the moment library, called with two arguments as the
  service does: the inclusivity defaults to \<^verbatim>\<open>'()'\<close>, so both comparisons are strict,
  and the result is false as soon as one of the three moments is invalid.
\<close>

fun isBetween :: "moment \<Rightarrow> moment \<Rightarrow> moment \<Rightarrow> bool" where
  "isBetween (Moment t) (Moment a) (Moment b) = (a < t \<and> t < b)"
| "isBetween _ _ _ = False"

text \<open>The interface \<^verbatim>\<open>SalesData\<close>; the field \<^verbatim>\<open>id\<close> is written \<open>id'\<close>.\<close>

record SalesData =
  id' :: string
  date :: moment
  revenue :: number
  orders :: int
  customerId :: string
  productId :: string
  productName :: "string option"
  category :: string
  region :: string

record DateRange =
  startDate :: moment
  endDate :: moment

record FilterOptions =
  dateRange :: DateRange
  regions :: "string list"
  categories :: "string list"
  customerSegments :: "string list"

record PeriodComparison =
  pc_revenue :: real
  pc_orders :: real
  pc_customers :: real

record DashboardMetrics =
  totalRevenue :: number
  totalOrders :: nat
  averageOrderValue :: number
  customerCount :: nat
  conversionRate :: real
  periodComparison :: PeriodComparison

text \<open>
  A JavaScript \<^verbatim>\<open>Set\<close> keeps its elements in insertion order, each once. \<open>newSet xs\<close>
  is \<^verbatim>\<open>new Set(xs)\<close>, read in iteration order.
\<close>

definition setAdd :: "'a list \<Rightarrow> 'a \<Rightarrow> 'a list" where
  "setAdd s x = (if x \<in> set s then s else s @ [x])"

definition newSet :: "'a list \<Rightarrow> 'a list" where
  "newSet xs = foldl setAdd [] xs"

section \<open>AnalyticsDataService: filtering and dashboard metrics\<close>

text \<open>
  \<^verbatim>\<open>applyFilters(data, filters)\<close>: \<^verbatim>\<open>data.filter(...)\<close> with the three tests of the
  callback (the \<^verbatim>\<open>console.log\<close> has no effect on the result).
\<close>

definition applyFilters :: "SalesData list \<Rightarrow> FilterOptions \<Rightarrow> SalesData list" where
  "applyFilters data filters =
     filter (\<lambda>item.
        let dateInRange = isBetween (date item) (startDate (dateRange filters))
                                    (endDate (dateRange filters));
            regionMatch = (length (regions filters) = 0 \<or> region item \<in> set (regions filters));
            categoryMatch =
              (length (categories filters) = 0 \<or> category item \<in> set (categories filters))
        in dateInRange \<and> regionMatch \<and> categoryMatch) data"

text \<open>
  \<^verbatim>\<open>calculateDashboardMetrics(data)\<close>: a left-to-right \<^verbatim>\<open>reduce\<close> for the revenue, the
  array length for the orders, the size of a \<^verbatim>\<open>Set\<close> of customer ids, and the guarded
  division.
\<close>

definition calculateDashboardMetrics :: "SalesData list \<Rightarrow> DashboardMetrics" where
  "calculateDashboardMetrics data =
     (let totalRevenue = foldl (\<lambda>sum item. sum + revenue item) 0 data;
          totalOrders = length data;
          uniqueCustomers = length (newSet (map customerId data))
      in \<lparr> totalRevenue = totalRevenue,
           totalOrders = totalOrders,
           averageOrderValue =
             (if totalOrders > 0 then totalRevenue / Num (real totalOrders) else 0),
           customerCount = uniqueCustomers,
           conversionRate = 45 / 1000,
           periodComparison = \<lparr> pc_revenue = 12 / 100, pc_orders = 8 / 100,
                                 pc_customers = 15 / 100 \<rparr> \<rparr>)"

subsection \<open>Fixtures of the service's test suite\<close>

text \<open>
  \<^verbatim>\<open>mockSalesData\<close> of the \<^verbatim>\<open>AnalyticsDataService\<close> tests: four orders dated 15 to 18
  January 2024 (midnight, written here as UTC milliseconds).
\<close>

definition day_ms :: int where
  "day_ms = 86400000"

definition jan15 :: int where
  "jan15 = 1705276800000"

definition mockSalesData :: "SalesData list" where
  "mockSalesData =
     [ \<lparr> id' = ''order1'', date = Moment jan15, revenue = Num 250, orders = 2,
         customerId = ''customer1'', productId = ''product1'', productName = Some ''Widget A'',
         category = ''Electronics'', region = ''North'' \<rparr>,
       \<lparr> id' = ''order2'', date = Moment (jan15 + day_ms), revenue = Num 150, orders = 1,
         customerId = ''customer2'', productId = ''product2'', productName = Some ''Widget B'',
         category = ''Electronics'', region = ''South'' \<rparr>,
       \<lparr> id' = ''order3'', date = Moment (jan15 + 2 * day_ms), revenue = Num 300, orders = 3,
         customerId = ''customer1'', productId = ''product1'', productName = Some ''Widget A'',
         category = ''Electronics'', region = ''North'' \<rparr>,
       \<lparr> id' = ''order4'', date = Moment (jan15 + 3 * day_ms), revenue = Num 50, orders = 1,
         customerId = ''customer3'', productId = ''product3'', productName = Some ''Widget C'',
         category = ''Home'', region = ''East'' \<rparr> ]"

text \<open>
  The filter of the test \<^verbatim>\<open>should filter data by date range\<close>: from 15 January to
  16 January 2024, no other restriction. The test expects two records.
\<close>

definition dateRangeTestFilter :: FilterOptions where
  "dateRangeTestFilter =
     \<lparr> dateRange = \<lparr> startDate = Moment jan15, endDate = Moment (jan15 + day_ms) \<rparr>,
       regions = [], categories = [], customerSegments = [] \<rparr>"

section \<open>VirtualizedChartComponent: the downsampler\<close>

text \<open>
  The chart accepts \<^verbatim>\<open>TimeSeriesData | ChartDataPoint\<close>; the \<^verbatim>\<open>x\<close> of a chart point is
  a number or a moment. The optional \<^verbatim>\<open>metadata\<close> and \<^verbatim>\<open>label\<close> play no role in the
  sampling and are left out.
\<close>

datatype xcoord = XNumber real | XMoment moment

datatype DataPoint = TimeSeriesData moment real | ChartDataPoint xcoord real

text \<open>\<^verbatim>\<open>'value' in item ? item.value : item.y\<close>\<close>

fun pointValue :: "DataPoint \<Rightarrow> real" where
  "pointValue (TimeSeriesData timestamp v) = v"
| "pointValue (ChartDataPoint x y) = y"

text \<open>\<^verbatim>\<open>Array.prototype.indexOf\<close>: the first index holding the value, or -1.\<close>

fun indexOf :: "'a list \<Rightarrow> 'a \<Rightarrow> int" where
  "indexOf [] v = -1"
| "indexOf (a # as) v =
     (if a = v then 0 else (let r = indexOf as v in if r < 0 then -1 else r + 1))"

text \<open>\<^verbatim>\<open>data.slice(a, b)\<close> for \<open>a \<le> b \<le> length data\<close>.\<close>

definition slice :: "'a list \<Rightarrow> nat \<Rightarrow> nat \<Rightarrow> 'a list" where
  "slice data a b = take (b - a) (drop a data)"

text \<open>
  The body of the sampling loop for one chunk. \<^verbatim>\<open>Math.min(...values)\<close> and
  \<^verbatim>\<open>Math.max(...values)\<close> are the least and the greatest element of a non-empty list.
  The indices collected in the \<^verbatim>\<open>Set\<close> are integers, \<^verbatim>\<open>indexOf\<close> may answer -1, and the
  only guard of the source is \<^verbatim>\<open>index < chunk.length\<close>; \<open>chunk ! nat index\<close> is
  \<^verbatim>\<open>chunk[index]\<close> for the indices that are not negative, which is all of them on a
  chunk that is not empty (lemma \<open>indicesToAdd_in_range\<close> below).
\<close>

definition indicesToAdd :: "DataPoint list \<Rightarrow> int list" where
  "indicesToAdd chunk =
     (let values = map pointValue chunk;
          minIndex = indexOf values (Min (set values));
          maxIndex = indexOf values (Max (set values))
      in newSet [0, minIndex, maxIndex, int (length chunk) - 1])"

definition sampleChunk :: "DataPoint list \<Rightarrow> DataPoint list" where
  "sampleChunk chunk =
     (if length chunk = 1 then [chunk ! 0]
      else map (\<lambda>index. chunk ! nat index)
             (filter (\<lambda>index. index < int (length chunk)) (indicesToAdd chunk)))"

text \<open>
  \<^verbatim>\<open>for (let i = 0; i < data.length; i += step)\<close>, with the output array as an
  accumulator. The loop advances only when \<open>step\<close> is positive; it is at its one call
  site (lemma \<open>ceilDiv_positive\<close>), and the test \<open>0 < step\<close> makes that explicit.
\<close>

function virtualizeLoop :: "nat \<Rightarrow> DataPoint list \<Rightarrow> nat \<Rightarrow> DataPoint list \<Rightarrow> DataPoint list" where
  "virtualizeLoop step data i virtualizedData =
     (if i < length data \<and> 0 < step
      then virtualizeLoop step data (i + step)
             (virtualizedData @ sampleChunk (slice data i (min (i + step) (length data))))
      else virtualizedData)"
  by pat_completeness auto
termination
  by (relation "measure (\<lambda>(step, data, i, acc). length data - i)") auto

text \<open>
  \<^verbatim>\<open>Math.ceil(n / maxDataPoints)\<close> on natural numbers. Dividing by 0 gives
  \<^verbatim>\<open>Infinity\<close> in JavaScript, a step that puts all the data in one chunk; \<open>n\<close> is such
  a step.
\<close>

definition ceilDiv :: "nat \<Rightarrow> nat \<Rightarrow> nat" where
  "ceilDiv n m = (if m = 0 then n else (n + m - 1) div m)"

text \<open>\<^verbatim>\<open>virtualizeData\<close>; the threshold \<^verbatim>\<open>maxDataPoints\<close> is a natural number.\<close>

definition virtualizeData :: "nat \<Rightarrow> DataPoint list \<Rightarrow> DataPoint list" where
  "virtualizeData maxDataPoints data =
     (if length data \<le> maxDataPoints then data
      else (let step = ceilDiv (length data) maxDataPoints
            in virtualizeLoop step data 0 []))"

text \<open>
  The partition the loop walks through, stated on its own: consecutive chunks of
  \<open>step\<close> elements, the last one possibly shorter.
\<close>

function chunks :: "nat \<Rightarrow> 'a list \<Rightarrow> 'a list list" where
  "chunks step xs = (if xs = [] \<or> step = 0 then [] else take step xs # chunks step (drop step xs))"
  by pat_completeness auto
termination
  by (relation "measure (\<lambda>(step, xs). length xs)") auto

text \<open>Chart points with ordinal \<open>x\<close> and the given \<open>y\<close> values, for the examples.\<close>

definition chartPoints :: "real list \<Rightarrow> DataPoint list" where
  "chartPoints ys = map (\<lambda>(i, y). ChartDataPoint (XNumber (real i)) y) (enumerate 0 ys)"

section \<open>CsvImportService: the parser\<close>

subsection \<open>Strings\<close>

text \<open>
  A string is a list of characters, read as code units below 256. The white space that
  \<^verbatim>\<open>trim\<close> removes is, in that range, TAB, LF, VT, FF, CR, space and the no-break
  space.
\<close>

definition isWhiteSpace :: "char \<Rightarrow> bool" where
  "isWhiteSpace c =
     (c \<in> set [CHR 0x09, CHR 0x0A, CHR 0x0B, CHR 0x0C, CHR 0x0D, CHR 0x20, CHR 0xA0])"

definition trimStart :: "string \<Rightarrow> string" where
  "trimStart s = dropWhile isWhiteSpace s"

definition trim :: "string \<Rightarrow> string" where
  "trim s = rev (dropWhile isWhiteSpace (rev (dropWhile isWhiteSpace s)))"

text \<open>\<^verbatim>\<open>s.split(sep)\<close> for a separator of one character; the empty string gives \<^verbatim>\<open>['']\<close>.\<close>

fun splitLoop :: "char \<Rightarrow> string \<Rightarrow> string \<Rightarrow> string list" where
  "splitLoop sep current [] = [current]"
| "splitLoop sep current (c # rest) =
     (if c = sep then current # splitLoop sep [] rest else splitLoop sep (current @ [c]) rest)"

definition split :: "char \<Rightarrow> string \<Rightarrow> string list" where
  "split sep s = splitLoop sep [] s"

text \<open>\<^verbatim>\<open>parts.join(sep)\<close>\<close>

fun join :: "string \<Rightarrow> string list \<Rightarrow> string" where
  "join sep [] = []"
| "join sep [x] = x"
| "join sep (x # y # ys) = x @ sep @ join sep (y # ys)"

text \<open>The decimal numeral of a loop index, as a template literal prints it.\<close>

definition digitChar :: "nat \<Rightarrow> char" where
  "digitChar d = ''0123456789'' ! d"

fun natToString :: "nat \<Rightarrow> string" where
  "natToString n =
     (if n < 10 then [digitChar n] else natToString (n div 10) @ [digitChar (n mod 10)])"

subsection \<open>The builtins \<^verbatim>\<open>parseInt\<close> and \<^verbatim>\<open>parseFloat\<close>\<close>

text \<open>
  Both skip leading white space, read an optional sign and then the longest prefix that
  is a numeral, ignoring what follows; with no such prefix the result is NaN. The
  argument \<^verbatim>\<open>undefined\<close> (\<open>None\<close>) is converted to the string \<^verbatim>\<open>"undefined"\<close>, which
  has no numeric prefix. \<^verbatim>\<open>parseInt\<close> without a radix reads hexadecimal digits after
  \<^verbatim>\<open>0x\<close> or \<^verbatim>\<open>0X\<close> and decimal digits otherwise; its NaN is \<open>None\<close>, and its
  value is the exact integer (the rounding of a numeral of more than 15 digits, to an
  infinity from 309 digits on, is outside the model of the integer field \<open>orders\<close>).
  \<^verbatim>\<open>parseFloat\<close> reads the literal \<^verbatim>\<open>Infinity\<close> as an infinity, with its sign, and
  otherwise a decimal literal with an optional fraction and exponent. The value of a
  decimal literal is kept exact, except that a value too large for a double is an
  infinity, as in JavaScript: the largest double is \<open>2 ^ 1024 - 2 ^ 971\<close>, and a value
  rounds to an infinity from \<open>2 ^ 1024 - 2 ^ 970\<close> on.
\<close>

definition indexIn :: "string \<Rightarrow> char \<Rightarrow> nat" where
  "indexIn s c = length (takeWhile (\<lambda>d. d \<noteq> c) s)"

definition isDigit :: "char \<Rightarrow> bool" where
  "isDigit c = (c \<in> set ''0123456789'')"

definition isHexDigit :: "char \<Rightarrow> bool" where
  "isHexDigit c = (c \<in> set ''0123456789abcdefABCDEF'')"

definition hexVal :: "char \<Rightarrow> nat" where
  "hexVal c = (if c \<in> set ''ABCDEF'' then 10 + indexIn ''ABCDEF'' c
               else indexIn ''0123456789abcdef'' c)"

definition digitsValue :: "nat \<Rightarrow> string \<Rightarrow> nat" where
  "digitsValue radix ds = foldl (\<lambda>a c. radix * a + hexVal c) 0 ds"

text \<open>An optional sign: whether it is a minus, and the rest of the string.\<close>

fun readSign :: "string \<Rightarrow> bool \<times> string" where
  "readSign [] = (False, [])"
| "readSign (c # rest) =
     (if c = CHR ''-'' then (True, rest)
      else if c = CHR ''+'' then (False, rest)
      else (False, c # rest))"

definition parseInt :: "string option \<Rightarrow> int option" where
  "parseInt arg =
     (case arg of
        None \<Rightarrow> None
      | Some inputString \<Rightarrow>
          (let (neg, s) = readSign (trimStart inputString);
               hex = (take 2 s = ''0x'' \<or> take 2 s = ''0X'');
               ds = (if hex then takeWhile isHexDigit (drop 2 s) else takeWhile isDigit s);
               n = int (digitsValue (if hex then 16 else 10) ds)
           in if ds = [] then None else Some (if neg then - n else n)))"

text \<open>The exponent part \<^verbatim>\<open>e\<close>, sign, digits; 0 when there is none.\<close>

definition readExponent :: "string \<Rightarrow> int" where
  "readExponent s =
     (case s of
        [] \<Rightarrow> 0
      | c # rest \<Rightarrow>
          if c = CHR ''e'' \<or> c = CHR ''E''
          then (let (neg, r) = readSign rest;
                    ds = takeWhile isDigit r;
                    n = int (digitsValue 10 ds)
                in if neg then - n else n)
          else 0)"

definition scale10 :: "real \<Rightarrow> int \<Rightarrow> real" where
  "scale10 m e = (if 0 \<le> e then m * 10 ^ nat e else m / 10 ^ nat (- e))"

definition overflowBound :: real where
  "overflowBound = 2 ^ 1024 - 2 ^ 970"

definition toNumber :: "real \<Rightarrow> number" where
  "toNumber v =
     (if overflowBound \<le> v then Infinity
      else if v \<le> - overflowBound then NegInfinity
      else Num v)"

definition parseFloat :: "string option \<Rightarrow> number" where
  "parseFloat arg =
     (case arg of
        None \<Rightarrow> NaN
      | Some inputString \<Rightarrow>
          (let (neg, s) = readSign (trimStart inputString);
               ip = takeWhile isDigit s;
               s2 = dropWhile isDigit s;
               dot = (take 1 s2 = ''.'');
               fp = (if dot then takeWhile isDigit (drop 1 s2) else []);
               s3 = (if dot then dropWhile isDigit (drop 1 s2) else s2);
               m = scale10 (real (digitsValue 10 (ip @ fp))) (readExponent s3 - int (length fp))
           in if take 8 s = ''Infinity'' then (if neg then NegInfinity else Infinity)
              else if ip = [] \<and> fp = [] then NaN
              else toNumber (if neg then - m else m)))"

subsection \<open>Parsing\<close>

text \<open>
  \<^verbatim>\<open>moment(row.date)\<close> belongs to the date library and depends on the clock (for
  \<^verbatim>\<open>undefined\<close> it is the current time): the parser takes it as a parameter,
  \<open>toMoment\<close>, from the cell or \<^verbatim>\<open>undefined\<close> to a moment.

  \<^verbatim>\<open>a || b\<close> on a cell that is a string or \<^verbatim>\<open>undefined\<close>, on the integer or NaN of
  \<^verbatim>\<open>parseInt\<close> and on the number of \<^verbatim>\<open>parseFloat\<close>: the right operand replaces
  \<^verbatim>\<open>undefined\<close>, the empty string, NaN and 0, and nothing else (an infinity is kept).
\<close>

definition orElse :: "string option \<Rightarrow> string \<Rightarrow> string" where
  "orElse v d = (case v of None \<Rightarrow> d | Some s \<Rightarrow> if s = [] then d else s)"

definition numberOr :: "int option \<Rightarrow> int \<Rightarrow> int" where
  "numberOr v d = (case v of None \<Rightarrow> d | Some n \<Rightarrow> if n = 0 then d else n)"

definition orNumber :: "number \<Rightarrow> number \<Rightarrow> number" where
  "orNumber v d = (if v = NaN \<or> v = 0 then d else v)"

text \<open>
  \<^verbatim>\<open>parseCsvLine\<close>: one pass over the characters with the fields read so far, the
  current field and the quote flag.
\<close>

fun parseCsvLoop :: "string \<Rightarrow> string list \<Rightarrow> string \<Rightarrow> bool \<Rightarrow> string list" where
  "parseCsvLoop [] result current inQuotes = result @ [trim current]"
| "parseCsvLoop (char # rest) result current inQuotes =
     (if char = CHR 0x22 then parseCsvLoop rest result current (\<not> inQuotes)
      else if char = CHR '','' \<and> \<not> inQuotes
           then parseCsvLoop rest (result @ [trim current]) [] inQuotes
      else parseCsvLoop rest result (current @ [char]) inQuotes)"

definition parseCsvLine :: "string \<Rightarrow> string list" where
  "parseCsvLine line = parseCsvLoop line [] [] False"

text \<open>
  \<^verbatim>\<open>headers.forEach((header, index) => row[header] = values[index])\<close>, called when the
  two arrays have the same length: a later column with the same header overwrites.
\<close>

definition buildRow :: "string list \<Rightarrow> string list \<Rightarrow> (string \<rightharpoonup> string)" where
  "buildRow headers values = foldl (\<lambda>row (header, v). row(header \<mapsto> v)) Map.empty (zip headers values)"

text \<open>The object literal \<^verbatim>\<open>salesItem\<close>; it has no \<^verbatim>\<open>productName\<close> property.\<close>

definition mapRow :: "(string option \<Rightarrow> moment) \<Rightarrow> nat \<Rightarrow> (string \<rightharpoonup> string) \<Rightarrow> SalesData" where
  "mapRow toMoment i row =
     \<lparr> id' = orElse (row ''id'') (''order_'' @ natToString i),
       date = toMoment (row ''date''),
       revenue = orNumber (parseFloat (row ''revenue'')) 0,
       orders = numberOr (parseInt (row ''orders'')) 1,
       customerId = orElse (row ''customerId'') (''customer_'' @ natToString i),
       productId = orElse (row ''productId'') (''product_'' @ natToString i),
       productName = None,
       category = orElse (row ''category'') ''Unknown'',
       region = orElse (row ''region'') ''Unknown'' \<rparr>"

text \<open>
  \<^verbatim>\<open>isValidSalesData\<close>: the strings must not be empty; \<^verbatim>\<open>data.date\<close> is an object
  and \<^verbatim>\<open>typeof data.revenue === 'number'\<close> holds of every record of the model (NaN and
  the infinities are of type number too); \<^verbatim>\<open>data.revenue >= 0\<close> is false of NaN and of
  the negative infinity.
\<close>

definition isValidSalesData :: "SalesData \<Rightarrow> bool" where
  "isValidSalesData data =
     (id' data \<noteq> [] \<and> isValid (date data) \<and> revenue data \<ge> 0 \<and>
      customerId data \<noteq> [] \<and> productId data \<noteq> [] \<and> category data \<noteq> [] \<and>
      region data \<noteq> [])"

text \<open>
  The loop \<^verbatim>\<open>for (let i = 1; i < lines.length; i++)\<close> over the lines after the header,
  with the index \<open>i\<close> and the output array. The warnings go to the console and are not
  part of the result; nothing in the \<^verbatim>\<open>try\<close> block throws.
\<close>

fun parseLines ::
  "(string option \<Rightarrow> moment) \<Rightarrow> string list \<Rightarrow> string list \<Rightarrow> nat \<Rightarrow> SalesData list \<Rightarrow> SalesData list"
where
  "parseLines toMoment headers [] i salesData = salesData"
| "parseLines toMoment headers (line # rest) i salesData =
     (let values = parseCsvLine line
      in if length values \<noteq> length headers
         then parseLines toMoment headers rest (i + 1) salesData
         else (let salesItem = mapRow toMoment i (buildRow headers values)
               in if isValidSalesData salesItem
                  then parseLines toMoment headers rest (i + 1) (salesData @ [salesItem])
                  else parseLines toMoment headers rest (i + 1) salesData))"

text \<open>
  What the service can fail with: \<^verbatim>\<open>lines[0].split\<close> throws a \<^verbatim>\<open>TypeError\<close> when the
  text has no line that is not blank; the HTTP request and the file reader can fail.
\<close>

datatype error = TypeError | HttpError | FileReadError

definition nonBlankLines :: "string \<Rightarrow> string list" where
  "nonBlankLines csvText = filter (\<lambda>line. trim line \<noteq> []) (split CHR 0x0A csvText)"

definition parseCsvToSalesData :: "(string option \<Rightarrow> moment) \<Rightarrow> string \<Rightarrow> error + SalesData list" where
  "parseCsvToSalesData toMoment csvText =
     (case nonBlankLines csvText of
        [] \<Rightarrow> Inl TypeError
      | header # rest \<Rightarrow>
          (let headers = map trim (split CHR '','' header)
           in Inr (parseLines toMoment headers rest 1 [])))"

text \<open>\<^verbatim>\<open>generateSampleCsvContent\<close>\<close>

definition sampleHeaders :: "string list" where
  "sampleHeaders = [''id'', ''date'', ''revenue'', ''orders'', ''customerId'', ''productId'',
     ''productName'', ''category'', ''region'']"

definition sampleRows :: "string list list" where
  "sampleRows =
     [ [''order_001'', ''2025-10-01'', ''125.99'', ''1'', ''customer_1001'', ''product_501'',
        ''Wireless Headphones'', ''Electronics'', ''North America''],
       [''order_002'', ''2025-10-01'', ''89.50'', ''1'', ''customer_1002'', ''product_502'',
        ''Cotton T-Shirt'', ''Clothing'', ''Europe''],
       [''order_003'', ''2025-10-02'', ''234.75'', ''1'', ''customer_1003'', ''product_503'',
        ''Garden Tools'', ''Home & Garden'', ''Asia Pacific''],
       [''order_004'', ''2025-10-02'', ''67.25'', ''1'', ''customer_1004'', ''product_504'',
        ''Running Shoes'', ''Sports'', ''North America''],
       [''order_005'', ''2025-10-03'', ''29.99'', ''1'', ''customer_1005'', ''product_505'',
        ''Programming Book'', ''Books'', ''Europe''],
       [''order_006'', ''2025-10-06'', ''29.99'', ''1'', ''customer_1005'', ''product_505'',
        ''Programming Book'', ''Books'', ''Europe''] ]"

definition generateSampleCsvContent :: string where
  "generateSampleCsvContent =
     join [CHR 0x0A] (join '','' sampleHeaders # map (join '','') sampleRows)"

subsection \<open>A date library for the examples\<close>

text \<open>
  A stand-in for \<^verbatim>\<open>moment\<close> where an example needs a concrete one: it resolves
  exactly the canonical form \<^verbatim>\<open>YYYY-MM-DD\<close> of a calendar date (to midnight UTC, by
  the usual days-from-civil count), takes the epoch for the current time, and calls
  everything else invalid.
\<close>

definition daysInMonth :: "nat \<Rightarrow> nat \<Rightarrow> nat" where
  "daysInMonth y m =
     (if m = 2 then (if y mod 4 = 0 \<and> (y mod 100 \<noteq> 0 \<or> y mod 400 = 0) then 29 else 28)
      else if m \<in> set [4, 6, 9, 11] then 30 else 31)"

definition daysFromCivil :: "nat \<Rightarrow> nat \<Rightarrow> nat \<Rightarrow> int" where
  "daysFromCivil y m d =
     (let y' = (if m \<le> 2 then int y - 1 else int y);
          era = y' div 400;
          yoe = y' - era * 400;
          doy = (153 * (if m > 2 then int m - 3 else int m + 9) + 2) div 5 + int d - 1;
          doe = yoe * 365 + yoe div 4 - yoe div 100 + doy
      in era * 146097 + doe - 719468)"

definition isoMoment :: "string option \<Rightarrow> moment" where
  "isoMoment arg =
     (case arg of
        None \<Rightarrow> Moment 0
      | Some s \<Rightarrow>
          (let y = digitsValue 10 (take 4 s);
               m = digitsValue 10 (take 2 (drop 5 s));
               d = digitsValue 10 (take 2 (drop 8 s))
           in if length s = 10 \<and> s ! 4 = CHR ''-'' \<and> s ! 7 = CHR ''-'' \<and>
                 list_all isDigit (take 4 s @ take 2 (drop 5 s) @ take 2 (drop 8 s)) \<and>
                 1 \<le> m \<and> m \<le> 12 \<and> 1 \<le> d \<and> d \<le> daysInMonth y m
              then Moment (daysFromCivil y m d * 86400000)
              else InvalidMoment))"

section \<open>AnalyticsDataService: product metrics and imports\<close>

record ProductMetrics =
  pm_productId :: string
  name :: string
  pm_category :: string
  pm_totalRevenue :: number
  pm_totalOrders :: nat
  pm_averageOrderValue :: number
  pm_conversionRate :: real

text \<open>
  A JavaScript \<^verbatim>\<open>Map\<close> as an association list in insertion order; \<^verbatim>\<open>set\<close> replaces
  the value of a key in place and appends a new key. \<^verbatim>\<open>has\<close> and \<^verbatim>\<open>get\<close> are
  \<open>map_of\<close>.
\<close>

fun mapSet :: "('k \<times> 'v) list \<Rightarrow> 'k \<Rightarrow> 'v \<Rightarrow> ('k \<times> 'v) list" where
  "mapSet [] k v = [(k, v)]"
| "mapSet ((k', v') # m) k v = (if k' = k then (k, v) # m else (k', v') # mapSet m k v)"

definition startsWith :: "string \<Rightarrow> string \<Rightarrow> bool" where
  "startsWith s prefix = (take (length prefix) s = prefix)"

text \<open>
  The callback of \<^verbatim>\<open>data.forEach\<close> in \<^verbatim>\<open>calculateProductMetrics\<close>. The object in the
  map is mutated in place; the model stores the updated object under its key.
  \<^verbatim>\<open>Math.random()\<close> is called once for each new product: \<open>random k\<close> is the value of
  the call number \<open>k\<close>.
\<close>

definition productStep ::
  "(nat \<Rightarrow> real) \<Rightarrow> (string \<times> ProductMetrics) list \<Rightarrow> SalesData \<Rightarrow> (string \<times> ProductMetrics) list"
where
  "productStep random productMap item =
     (let productMap1 =
            (if map_of productMap (productId item) = None
             then mapSet productMap (productId item)
                    \<lparr> pm_productId = productId item,
                      name = ''Product '' @ productId item,
                      pm_category = category item,
                      pm_totalRevenue = 0,
                      pm_totalOrders = 0,
                      pm_averageOrderValue = 0,
                      pm_conversionRate = random (length productMap) * (1 / 10) + 2 / 100 \<rparr>
             else productMap)
      in case map_of productMap1 (productId item) of
           None \<Rightarrow> productMap1
         | Some product \<Rightarrow>
             (let product1 = product\<lparr> pm_totalRevenue := pm_totalRevenue product + revenue item,
                                      pm_totalOrders := pm_totalOrders product + 1 \<rparr>;
                  product2 = product1\<lparr> pm_averageOrderValue :=
                                pm_totalRevenue product1 /
                                Num (real (pm_totalOrders product1)) \<rparr>;
                  product3 =
                    (case productName item of
                       None \<Rightarrow> product2
                     | Some n \<Rightarrow>
                         if n \<noteq> [] \<and> startsWith (name product2) ''Product ''
                         then product2\<lparr> name := n \<rparr> else product2)
              in mapSet productMap1 (productId item) product3))"

definition calculateProductMetrics :: "(nat \<Rightarrow> real) \<Rightarrow> SalesData list \<Rightarrow> ProductMetrics list" where
  "calculateProductMetrics random data = map snd (foldl (productStep random) [] data)"

text \<open>
  The state of the service: the values of its two \<^verbatim>\<open>BehaviorSubject\<close>s. The derived
  streams are functions of these two values.
\<close>

record ServiceState =
  salesDataSubject :: "SalesData list"
  filtersSubject :: FilterOptions

text \<open>
  \<^verbatim>\<open>loadSalesDataFromCsv\<close> of the import service, once subscribed: the HTTP request
  answers with the text or fails, and an exception of the parser in \<^verbatim>\<open>map\<close> becomes an
  error of the stream.
\<close>

definition loadSalesDataFromCsv ::
  "(string option \<Rightarrow> moment) \<Rightarrow> error + string \<Rightarrow> error + SalesData list" where
  "loadSalesDataFromCsv toMoment response =
     (case response of Inl e \<Rightarrow> Inl e | Inr csvText \<Rightarrow> parseCsvToSalesData toMoment csvText)"

text \<open>
  \<^verbatim>\<open>loadSampleDataFromAssets\<close>: \<^verbatim>\<open>catchError\<close> replaces an error by \<^verbatim>\<open>of([])\<close>, and the
  subscriber stores what arrives. Nothing is returned.
\<close>

definition loadSampleDataFromAssets ::
  "(string option \<Rightarrow> moment) \<Rightarrow> error + string \<Rightarrow> ServiceState \<Rightarrow> ServiceState" where
  "loadSampleDataFromAssets toMoment response st =
     (case loadSalesDataFromCsv toMoment response of
        Inl e \<Rightarrow> st\<lparr> salesDataSubject := [] \<rparr>
      | Inr data \<Rightarrow> st\<lparr> salesDataSubject := data \<rparr>)"

text \<open>
  \<^verbatim>\<open>importSalesDataFromCsv\<close>, once subscribed: the \<^verbatim>\<open>map\<close> stores the data and passes
  them on; an error skips the \<^verbatim>\<open>map\<close> and reaches the subscriber. The result is what the
  subscriber receives, with the state of the service afterwards.
\<close>

definition importSalesDataFromCsv ::
  "(string option \<Rightarrow> moment) \<Rightarrow> error + string \<Rightarrow> ServiceState \<Rightarrow>
     (error + SalesData list) \<times> ServiceState" where
  "importSalesDataFromCsv toMoment response st =
     (case loadSalesDataFromCsv toMoment response of
        Inl e \<Rightarrow> (Inl e, st)
      | Inr data \<Rightarrow> (Inr data, st\<lparr> salesDataSubject := data \<rparr>))"

text \<open>
  \<^verbatim>\<open>importSalesDataFromFile\<close>: \<^verbatim>\<open>parseUploadedFile\<close> resolves with the parsed
  records, or rejects when the reader fails or the parser throws; the \<^verbatim>\<open>await\<close> then
  throws before the subject is touched.
\<close>

definition parseUploadedFile ::
  "(string option \<Rightarrow> moment) \<Rightarrow> error + string \<Rightarrow> error + SalesData list" where
  "parseUploadedFile toMoment fileText =
     (case fileText of Inl e \<Rightarrow> Inl e | Inr csvText \<Rightarrow> parseCsvToSalesData toMoment csvText)"

definition importSalesDataFromFile ::
  "(string option \<Rightarrow> moment) \<Rightarrow> error + string \<Rightarrow> ServiceState \<Rightarrow>
     (error + SalesData list) \<times> ServiceState" where
  "importSalesDataFromFile toMoment fileText st =
     (case parseUploadedFile toMoment fileText of
        Inl e \<Rightarrow> (Inl e, st)
      | Inr data \<Rightarrow> (Inr data, st\<lparr> salesDataSubject := data \<rparr>))"

text \<open>\<^verbatim>\<open>clearData\<close>\<close>

definition clearData :: "ServiceState \<Rightarrow> ServiceState" where
  "clearData st = st\<lparr> salesDataSubject := [] \<rparr>"

subsection \<open>Fixtures of the import service's test suite\<close>

text \<open>
  The header line of the tests; the row of the test \<^verbatim>\<open>should apply sensible defaults\<close>,
  which supplies only a date, followed by a row whose revenue and orders are not
  numerals; a row with a negative number of orders; two rows with an infinite revenue;
  and the row of the first test, which supplies a product name.
\<close>

definition headersLine :: string where
  "headersLine = ''id,date,revenue,orders,customerId,productId,productName,category,region''"


definition negativeOrdersCsv :: string where
  "negativeOrdersCsv = join [CHR 0x0A]
     [headersLine, ''id6,2025-10-04,10,-5,c6,p6,Prod,Category,Region'']"

definition infinityCsv :: string where
  "infinityCsv = join [CHR 0x0A]
     [headersLine, ''id7,2025-10-04,-Infinity,1,c7,p7,Prod,Category,Region'',
      ''id8,2025-10-04,Infinity,1,c8,p8,Prod,Category,Region'']"

definition productNameCsv :: string where
  "productNameCsv = join [CHR 0x0A]
     [headersLine, ''id1,2025-10-01,10.5,2,c1,p1,Name,Cat,Region'']"

text \<open>A service that holds the four mock records when an import starts.\<close>

definition loadedState :: ServiceState where
  "loadedState = \<lparr> salesDataSubject = mockSalesData, filtersSubject = dateRangeTestFilter \<rparr>"

section \<open>Properties\<close>

declare virtualizeLoop.simps [simp del] chunks.simps [simp del] natToString.simps [simp del]

lemma set_setAdd: "set (setAdd s x) = insert x (set s)"
  by (auto simp: setAdd_def)

lemma distinct_setAdd: "distinct s \<Longrightarrow> distinct (setAdd s x)"
  by (auto simp: setAdd_def)

lemma foldl_setAdd: "set (foldl setAdd s xs) = set s \<union> set xs"
  by (induction xs arbitrary: s) (auto simp: set_setAdd)

lemma distinct_foldl_setAdd: "distinct s \<Longrightarrow> distinct (foldl setAdd s xs)"
  by (induction xs arbitrary: s) (auto simp: distinct_setAdd)

lemma set_newSet: "set (newSet xs) = set xs"
  by (simp add: newSet_def foldl_setAdd)

lemma distinct_newSet: "distinct (newSet xs)"
  by (simp add: newSet_def distinct_foldl_setAdd)

lemma length_newSet: "length (newSet xs) = card (set xs)"
  using distinct_card [OF distinct_newSet, of xs] by (simp add: set_newSet)

lemma foldl_revenue: "foldl (\<lambda>sum item. sum + revenue item) a data = a + sum_list (map revenue data)"
  by (induction data arbitrary: a) (simp_all add: add.assoc)

text \<open>On finite numbers the sum is the sum of the reals.\<close>

lemma sum_list_Num: "sum_list (map Num rs) = Num (sum_list rs)"
  by (induction rs) (simp_all add: zero_number_def plus_number_def)

lemma zero_le_number: "(0::number) \<le> x \<longleftrightarrow> x = Infinity \<or> (\<exists>v. x = Num v \<and> 0 \<le> v)"
  by (cases x) (simp_all add: zero_number_def less_eq_number_def)


lemma applyFilters_member:
  "r \<in> set (applyFilters R F) \<longleftrightarrow>
     r \<in> set R \<and> isBetween (date r) (startDate (dateRange F)) (endDate (dateRange F)) \<and>
     (regions F = [] \<or> region r \<in> set (regions F)) \<and>
     (categories F = [] \<or> category r \<in> set (categories F))"
  by (auto simp: applyFilters_def Let_def)

subsection \<open>C1: membership in the filtered view\<close>

text \<open>
  C1 asks that a record whose date equals a bound of the date range passes the filter
  (both bounds inclusive). The service calls \<^verbatim>\<open>isBetween\<close> without an inclusivity
  argument, so both bounds are excluded: on the fixture of its own test, where the
  orders of 15 and 16 January lie on the two bounds and the test expects both, the
  filtered view is empty.
\<close>

theorem applyFilters_excludes_bounds:
  "applyFilters mockSalesData dateRangeTestFilter = []"
  by (simp add: applyFilters_def mockSalesData_def dateRangeTestFilter_def day_ms_def jan15_def)

subsection \<open>C2: dashboard metrics\<close>

text \<open>
  C2: for every record list, \<open>totalRevenue\<close> is the sum of the revenues, \<open>totalOrders\<close>
  is the number of records, \<open>averageOrderValue\<close> is their quotient and is 0 on the empty
  list, and \<open>customerCount\<close> is the number of distinct customer ids. Sum and quotient
  are those of JavaScript numbers; on finite revenues they are the sum and the quotient
  of the reals (\<open>sum_list_Num\<close>).
\<close>

theorem calculateDashboardMetrics_correct:
  "totalRevenue (calculateDashboardMetrics data) = sum_list (map revenue data) \<and>
   totalOrders (calculateDashboardMetrics data) = length data \<and>
   averageOrderValue (calculateDashboardMetrics data) =
     (if data = [] then 0
      else totalRevenue (calculateDashboardMetrics data) /
           Num (real (totalOrders (calculateDashboardMetrics data)))) \<and>
   customerCount (calculateDashboardMetrics data) = card (customerId ` set data)"
  by (simp add: calculateDashboardMetrics_def Let_def foldl_revenue length_newSet)

text \<open>
  On the test fixture: revenue 750 over 4 records (the \<open>orders\<close> fields add up to 7),
  average 187.5, three customers.
\<close>

theorem calculateDashboardMetrics_correct_witness:
  "totalRevenue (calculateDashboardMetrics mockSalesData) = Num 750 \<and>
   totalOrders (calculateDashboardMetrics mockSalesData) = 4 \<and>
   sum_list (map orders mockSalesData) = 7 \<and>
   averageOrderValue (calculateDashboardMetrics mockSalesData) = Num (375 / 2) \<and>
   customerCount (calculateDashboardMetrics mockSalesData) = 3 \<and>
   averageOrderValue (calculateDashboardMetrics []) = 0"
  using calculateDashboardMetrics_correct [of mockSalesData]
    calculateDashboardMetrics_correct [of "[]"]
  by (simp add: mockSalesData_def card_insert_if zero_number_def plus_number_def
      divide_number_def)

section \<open>Properties of the downsampler\<close>

lemma indexOf_lt: "indexOf xs v < int (length xs)"
  by (induction xs) (auto simp: Let_def)

lemma indexOf_mem: "v \<in> set xs \<Longrightarrow> 0 \<le> indexOf xs v \<and> xs ! nat (indexOf xs v) = v"
  by (induction xs) (auto simp: Let_def nat_add_distrib)

lemma length_newSet_le: "length (newSet xs) \<le> length xs"
  by (simp add: length_newSet card_length)

lemma minIndex_props:
  assumes "chunk \<noteq> []"
  defines "vs \<equiv> map pointValue chunk"
  shows "0 \<le> indexOf vs (Min (set vs))"
    and "indexOf vs (Min (set vs)) < int (length chunk)"
    and "pointValue (chunk ! nat (indexOf vs (Min (set vs)))) = Min (set vs)"
proof -
  have m: "Min (set vs) \<in> set vs"
    using assms by (intro Min_in) auto
  from indexOf_mem [OF m] show "0 \<le> indexOf vs (Min (set vs))" by simp
  show lt: "indexOf vs (Min (set vs)) < int (length chunk)"
    using indexOf_lt [of vs "Min (set vs)"] by (simp add: vs_def)
  from indexOf_mem [OF m] lt have "nat (indexOf vs (Min (set vs))) < length chunk"
    by (simp add: nat_less_iff)
  with indexOf_mem [OF m]
  show "pointValue (chunk ! nat (indexOf vs (Min (set vs)))) = Min (set vs)"
    by (simp add: vs_def)
qed

lemma maxIndex_props:
  assumes "chunk \<noteq> []"
  defines "vs \<equiv> map pointValue chunk"
  shows "0 \<le> indexOf vs (Max (set vs))"
    and "indexOf vs (Max (set vs)) < int (length chunk)"
    and "pointValue (chunk ! nat (indexOf vs (Max (set vs)))) = Max (set vs)"
proof -
  have m: "Max (set vs) \<in> set vs"
    using assms by (intro Max_in) auto
  from indexOf_mem [OF m] show "0 \<le> indexOf vs (Max (set vs))" by simp
  show lt: "indexOf vs (Max (set vs)) < int (length chunk)"
    using indexOf_lt [of vs "Max (set vs)"] by (simp add: vs_def)
  from indexOf_mem [OF m] lt have "nat (indexOf vs (Max (set vs))) < length chunk"
    by (simp add: nat_less_iff)
  with indexOf_mem [OF m]
  show "pointValue (chunk ! nat (indexOf vs (Max (set vs)))) = Max (set vs)"
    by (simp add: vs_def)
qed

lemma indicesToAdd_in_range:
  assumes "chunk \<noteq> []" and "i \<in> set (indicesToAdd chunk)"
  shows "0 \<le> i \<and> i < int (length chunk)"
  using assms minIndex_props(1,2) [OF assms(1)] maxIndex_props(1,2) [OF assms(1)]
  by (auto simp: indicesToAdd_def Let_def set_newSet)

lemma indicesToAdd_zero: "0 \<in> set (indicesToAdd chunk)"
  by (simp add: indicesToAdd_def Let_def set_newSet)

lemma length_indicesToAdd_le4: "length (indicesToAdd chunk) \<le> 4"
  unfolding indicesToAdd_def Let_def
  by (rule order_trans [OF length_newSet_le]) simp

lemma filter_indicesToAdd:
  "chunk \<noteq> [] \<Longrightarrow> filter (\<lambda>index. index < int (length chunk)) (indicesToAdd chunk) = indicesToAdd chunk"
  using indicesToAdd_in_range by (simp add: filter_id_conv)

lemma length_indicesToAdd_le_chunk:
  assumes "chunk \<noteq> []"
  shows "length (indicesToAdd chunk) \<le> length chunk"
proof -
  have d: "distinct (indicesToAdd chunk)"
    by (simp add: indicesToAdd_def Let_def distinct_newSet)
  have sub: "set (indicesToAdd chunk) \<subseteq> {0..<int (length chunk)}"
    using indicesToAdd_in_range [OF assms] by auto
  have "length (indicesToAdd chunk) = card (set (indicesToAdd chunk))"
    using d by (simp add: distinct_card)
  also have "\<dots> \<le> card {0..<int (length chunk)}"
    using sub by (intro card_mono) auto
  finally show ?thesis by simp
qed

lemma sampleChunk_length:
  assumes "chunk \<noteq> []"
  shows "1 \<le> length (sampleChunk chunk)"
    and "length (sampleChunk chunk) \<le> 4"
    and "length (sampleChunk chunk) \<le> length chunk"
proof -
  have pos: "1 \<le> length (indicesToAdd chunk)"
    using indicesToAdd_zero [of chunk] by (cases "indicesToAdd chunk") auto
  show "1 \<le> length (sampleChunk chunk)"
    using pos assms by (simp add: sampleChunk_def filter_indicesToAdd)
  show "length (sampleChunk chunk) \<le> 4"
    using length_indicesToAdd_le4 [of chunk] assms by (simp add: sampleChunk_def filter_indicesToAdd)
  show "length (sampleChunk chunk) \<le> length chunk"
    using length_indicesToAdd_le_chunk [OF assms] assms
    by (simp add: sampleChunk_def filter_indicesToAdd)
qed

lemma slice_take_drop:
  "i < length data \<Longrightarrow> slice data i (min (i + step) (length data)) = take step (drop i data)"
  by (simp add: slice_def min_def)

lemma virtualizeLoop_chunks:
  "virtualizeLoop step data i acc = acc @ concat (map sampleChunk (chunks step (drop i data)))"
proof (induction step data i acc rule: virtualizeLoop.induct)
  case (1 step data i acc)
  show ?case
  proof (cases "i < length data \<and> 0 < step")
    case True
    then have ne: "drop i data \<noteq> []" by simp
    have "virtualizeLoop step data i acc =
            virtualizeLoop step data (i + step) (acc @ sampleChunk (take step (drop i data)))"
      using True by (subst virtualizeLoop.simps) (simp add: slice_take_drop)
    also have "\<dots> = (acc @ sampleChunk (take step (drop i data))) @
                      concat (map sampleChunk (chunks step (drop (i + step) data)))"
      using "1.IH" [OF True] True by (simp add: slice_take_drop)
    also have "\<dots> = acc @ concat (map sampleChunk (chunks step (drop i data)))"
      using True ne by (subst (2) chunks.simps) (simp add: add.commute)
    finally show ?thesis .
  next
    case False
    then have "chunks step (drop i data) = []"
      by (subst chunks.simps) auto
    with False show ?thesis
      by (subst virtualizeLoop.simps) auto
  qed
qed


lemma chunks_Nil [simp]: "chunks step [] = []"
  by (subst chunks.simps) simp

lemma chunks_step: "xs \<noteq> [] \<Longrightarrow> 0 < step \<Longrightarrow> chunks step xs = take step xs # chunks step (drop step xs)"
  by (subst chunks.simps) simp

lemma chunks_member:
  "c \<in> set (chunks step xs) \<Longrightarrow> c \<noteq> [] \<and> length c \<le> step"
proof (induction step xs rule: chunks.induct)
  case (1 step xs)
  show ?case
  proof (cases "xs = [] \<or> step = 0")
    case True
    with "1.prems" show ?thesis by (subst (asm) chunks.simps) auto
  next
    case False
    with "1.prems" have "c = take step xs \<or> c \<in> set (chunks step (drop step xs))"
      by (subst (asm) chunks.simps) auto
    with False "1.IH" show ?thesis by auto
  qed
qed

lemma concat_chunks: "0 < step \<Longrightarrow> concat (chunks step xs) = xs"
proof (induction step xs rule: chunks.induct)
  case (1 step xs)
  show ?case
  proof (cases "xs = []")
    case True then show ?thesis by simp
  next
    case False
    with "1.prems" "1.IH" show ?thesis by (simp add: chunks_step)
  qed
qed

lemma length_chunks_mult: "0 < step \<Longrightarrow> length xs \<le> k * step \<Longrightarrow> length (chunks step xs) \<le> k"
proof (induction step xs arbitrary: k rule: chunks.induct)
  case (1 step xs)
  show ?case
  proof (cases "xs = []")
    case True then show ?thesis by simp
  next
    case False
    with "1.prems" obtain k' where k: "k = Suc k'" by (cases k) auto
    have "length (drop step xs) \<le> k' * step"
      using "1.prems" k by simp
    from "1.IH" [OF _ "1.prems"(1) this] False "1.prems"(1)
    have "length (chunks step (drop step xs)) \<le> k'" by simp
    with False "1.prems" k show ?thesis by (simp add: chunks_step)
  qed
qed

lemma ceilDiv_mult: "0 < m \<Longrightarrow> n \<le> m * ceilDiv n m"
proof -
  assume m: "0 < m"
  have "n + m - 1 = m * ((n + m - 1) div m) + (n + m - 1) mod m" by simp
  moreover have "(n + m - 1) mod m < m" using m by simp
  ultimately have "n + m - 1 < m * ((n + m - 1) div m) + m" by linarith
  then show ?thesis using m by (simp add: ceilDiv_def)
qed

lemma ceilDiv_positive: "0 < n \<Longrightarrow> 0 < ceilDiv n m"
  by (auto simp: ceilDiv_def div_greater_zero_iff)

lemma ceilDiv_le: "0 < m \<Longrightarrow> ceilDiv n m \<le> n"
proof -
  assume m: "0 < m"
  show ?thesis
  proof (cases "n = 0")
    case True with m show ?thesis by (simp add: ceilDiv_def)
  next
    case False
    have "(n + m - 1) div m \<le> (n * m) div m"
    proof (rule div_le_mono)
      have "n + m - 1 \<le> n + n * (m - 1)" using False by (cases n) auto
      also have "\<dots> = n * m" using m by (cases m) auto
      finally show "n + m - 1 \<le> n * m" .
    qed
    with m show ?thesis by (simp add: ceilDiv_def)
  qed
qed

lemma length_samples_le4: "length (concat (map sampleChunk (chunks step xs))) \<le> 4 * length (chunks step xs)"
proof (induction step xs rule: chunks.induct)
  case (1 step xs)
  show ?case
  proof (cases "xs = [] \<or> step = 0")
    case True then show ?thesis by (subst (1 2) chunks.simps) auto
  next
    case False
    then have "take step xs \<noteq> []" by simp
    from sampleChunk_length(2) [OF this] "1.IH" [OF False] False
    show ?thesis by (simp add: chunks_step)
  qed
qed

lemma length_samples_le: "length (concat (map sampleChunk (chunks step xs))) \<le> length xs"
proof (induction step xs rule: chunks.induct)
  case (1 step xs)
  show ?case
  proof (cases "xs = [] \<or> step = 0")
    case True then show ?thesis by (subst chunks.simps) auto
  next
    case False
    then have "take step xs \<noteq> []" by simp
    from sampleChunk_length(3) [OF this]
    have a: "length (sampleChunk (take step xs)) \<le> length (take step xs)" .
    have b: "length (concat (map sampleChunk (chunks step (drop step xs)))) \<le> length (drop step xs)"
      by (rule "1.IH" [OF False])
    have "length (take step xs) + length (drop step xs) = length xs"
      by (metis append_take_drop_id length_append)
    with a b have "length (sampleChunk (take step xs)) +
        length (concat (map sampleChunk (chunks step (drop step xs)))) \<le> length xs"
      by linarith
    with False show ?thesis by (simp add: chunks_step)
  qed
qed

lemma length_samples_pos:
  assumes "xs \<noteq> []" "0 < step"
  shows "1 \<le> length (concat (map sampleChunk (chunks step xs)))"
proof -
  have "take step xs \<noteq> []" using assms by simp
  from sampleChunk_length(1) [OF this] assms show ?thesis by (simp add: chunks_step)
qed

lemma length_samples_less:
  assumes "5 \<le> step" "step \<le> length xs"
  shows "length (concat (map sampleChunk (chunks step xs))) < length xs"
proof -
  have ne: "xs \<noteq> []" "0 < step" using assms by auto
  then have t: "take step xs \<noteq> []" by simp
  have "length (sampleChunk (take step xs)) \<le> 4" by (rule sampleChunk_length(2) [OF t])
  moreover have "length (concat (map sampleChunk (chunks step (drop step xs)))) \<le> length xs - step"
    using length_samples_le [of step "drop step xs"] by simp
  ultimately show ?thesis using assms ne by (simp add: chunks_step)
qed

lemma virtualizeData_chunks:
  "maxPoints < length data \<Longrightarrow>
   virtualizeData maxPoints data =
     concat (map sampleChunk (chunks (ceilDiv (length data) maxPoints) data))"
  by (simp add: virtualizeData_def Let_def virtualizeLoop_chunks)

lemma map_foldl_setAdd:
  "inj_on f (set s \<union> set xs) \<Longrightarrow> map f (foldl setAdd s xs) = foldl setAdd (map f s) (map f xs)"
proof (induction xs arbitrary: s)
  case Nil
  then show ?case by simp
next
  case (Cons x xs)
  have inj: "inj_on f (insert x (set s))"
    using Cons.prems by (auto intro: inj_on_subset)
  have mem: "f x \<in> f ` set s \<longleftrightarrow> x \<in> set s"
    using inj by (auto dest: inj_onD)
  have step: "map f (setAdd s x) = setAdd (map f s) (f x)"
    using mem by (simp add: setAdd_def)
  have "inj_on f (set (setAdd s x) \<union> set xs)"
    using Cons.prems by (simp add: set_setAdd Un_commute insert_commute Un_insert_right)
  from Cons.IH [OF this] step show ?case by simp
qed

lemma map_newSet: "inj_on f (set xs) \<Longrightarrow> map f (newSet xs) = newSet (map f xs)"
  using map_foldl_setAdd [of f "[]" xs] by (simp add: newSet_def)

lemma inj_on_nat: "\<forall>i\<in>A. (0::int) \<le> i \<Longrightarrow> inj_on nat A"
  by (rule inj_onI) (metis nat_eq_iff2)

lemma sampleChunk_representatives:
  assumes "2 \<le> length chunk"
  shows "\<exists>minIndex maxIndex.
           minIndex < length chunk \<and> maxIndex < length chunk \<and>
           pointValue (chunk ! minIndex) = Min (pointValue ` set chunk) \<and>
           pointValue (chunk ! maxIndex) = Max (pointValue ` set chunk) \<and>
           sampleChunk chunk = map (nth chunk) (newSet [0, minIndex, maxIndex, length chunk - 1])"
proof -
  let ?vs = "map pointValue chunk"
  let ?mi = "indexOf ?vs (Min (set ?vs))"
  let ?ma = "indexOf ?vs (Max (set ?vs))"
  have ne: "chunk \<noteq> []" using assms by auto
  note mi = minIndex_props [OF ne] and ma = maxIndex_props [OF ne]
  have inj: "inj_on nat (set [0, ?mi, ?ma, int (length chunk) - 1])"
    using mi(1) ma(1) assms by (intro inj_on_nat) auto
  have last: "nat (int (length chunk) - 1) = length chunk - 1" by simp
  have "sampleChunk chunk = map (\<lambda>index. chunk ! nat index) (indicesToAdd chunk)"
    using assms ne by (simp add: sampleChunk_def filter_indicesToAdd)
  also have "\<dots> = map (nth chunk) (map nat (newSet [0, ?mi, ?ma, int (length chunk) - 1]))"
    by (simp add: indicesToAdd_def Let_def)
  also have "\<dots> = map (nth chunk) (newSet [0, nat ?mi, nat ?ma, length chunk - 1])"
    using map_newSet [OF inj] last by simp
  finally have eq: "sampleChunk chunk =
      map (nth chunk) (newSet [0, nat ?mi, nat ?ma, length chunk - 1])" .
  have "nat ?mi < length chunk" "nat ?ma < length chunk"
    using mi(1,2) ma(1,2) by (simp_all add: nat_less_iff)
  moreover have "pointValue (chunk ! nat ?mi) = Min (pointValue ` set chunk)"
    using mi(3) by simp
  moreover have "pointValue (chunk ! nat ?ma) = Max (pointValue ` set chunk)"
    using ma(3) by simp
  ultimately show ?thesis using eq by blast
qed

lemma sampleChunk_single: "length chunk = 1 \<Longrightarrow> sampleChunk chunk = chunk"
  by (cases chunk) (simp_all add: sampleChunk_def)


subsection \<open>C5: identity below the threshold\<close>

text \<open>
  C5: a point sequence with at most \<open>maxPoints\<close> points is returned unchanged.
\<close>

theorem virtualizeData_identity:
  "length data \<le> maxPoints \<Longrightarrow> virtualizeData maxPoints data = data"
  by (simp add: virtualizeData_def)


theorem virtualizeData_identity_witness:
  "length (chartPoints [0, 1, 2, 3, 4]) \<le> 10 \<and>
   virtualizeData 10 (chartPoints [0, 1, 2, 3, 4]) = chartPoints [0, 1, 2, 3, 4]"
  using virtualizeData_identity [of "chartPoints [0, 1, 2, 3, 4]" 10]
  by (simp add: chartPoints_def)

subsection \<open>C3: bounds on the output length\<close>

text \<open>
  C3 as stated asks, for every sequence longer than \<open>maxPoints \<ge> 1\<close>, an output that is
  strictly shorter than the input. Two points with \<open>maxPoints = 1\<close> form one chunk of
  two, whose first and last element are both kept: the output has the length of the
  input.
\<close>

theorem virtualizeData_not_strictly_shorter:
  "(1::nat) \<le> 1 \<and> 1 < length (chartPoints [1, 2]) \<and>
   \<not> length (virtualizeData 1 (chartPoints [1, 2])) < length (chartPoints [1, 2])"
  by (simp add: chartPoints_def virtualizeData_def virtualizeLoop.simps ceilDiv_def slice_def
      sampleChunk_def indicesToAdd_def newSet_def setAdd_def Let_def)

text \<open>
  C3, amended: for every sequence longer than \<open>maxPoints \<ge> 1\<close> the output has at least
  one point, at most \<open>4 * maxPoints\<close> points and at most as many points as the input;
  it is strictly shorter than the input whenever the chunk size
  \<open>ceil (length data / maxPoints)\<close> is at least 5.
\<close>

theorem virtualizeData_length_bounds:
  assumes "1 \<le> maxPoints" and "maxPoints < length data"
  shows "1 \<le> length (virtualizeData maxPoints data) \<and>
         length (virtualizeData maxPoints data) \<le> 4 * maxPoints \<and>
         length (virtualizeData maxPoints data) \<le> length data \<and>
         (5 \<le> ceilDiv (length data) maxPoints \<longrightarrow>
            length (virtualizeData maxPoints data) < length data)"
proof -
  let ?step = "ceilDiv (length data) maxPoints"
  have ne: "data \<noteq> []" using assms by auto
  have pos: "0 < ?step" using ne by (simp add: ceilDiv_positive)
  have n: "length (chunks ?step data) \<le> maxPoints"
    using ceilDiv_mult [of maxPoints "length data"] assms pos
    by (intro length_chunks_mult) auto
  have a: "1 \<le> length (virtualizeData maxPoints data)"
    using length_samples_pos [OF ne pos] assms by (simp add: virtualizeData_chunks)
  have b: "length (virtualizeData maxPoints data) \<le> 4 * maxPoints"
    using length_samples_le4 [of ?step data] n assms by (simp add: virtualizeData_chunks)
  have c: "length (virtualizeData maxPoints data) \<le> length data"
    using length_samples_le [of ?step data] assms by (simp add: virtualizeData_chunks)
  have d: "length (virtualizeData maxPoints data) < length data" if "5 \<le> ?step"
    using length_samples_less [OF that] ceilDiv_le [of maxPoints "length data"] assms
    by (simp add: virtualizeData_chunks)
  from a b c d show ?thesis by blast
qed


theorem virtualizeData_length_bounds_witness:
  "(1::nat) \<le> 1 \<and> 1 < length (chartPoints [3, 9, 1, 5, 7, 2]) \<and>
   5 \<le> ceilDiv (length (chartPoints [3, 9, 1, 5, 7, 2])) 1 \<and>
   length (virtualizeData 1 (chartPoints [3, 9, 1, 5, 7, 2])) = 4 \<and>
   length (virtualizeData 1 (chartPoints [3, 9, 1, 5, 7, 2]))
     < length (chartPoints [3, 9, 1, 5, 7, 2])"
proof -
  have h1: "(1::nat) \<le> 1" by simp
  have h2: "1 < length (chartPoints [3, 9, 1, 5, 7, 2])" by (simp add: chartPoints_def)
  have h3: "5 \<le> ceilDiv (length (chartPoints [3, 9, 1, 5, 7, 2])) 1"
    by (simp add: chartPoints_def ceilDiv_def)
  have ev: "length (virtualizeData 1 (chartPoints [3, 9, 1, 5, 7, 2])) = 4"
    by (simp add: chartPoints_def virtualizeData_def virtualizeLoop.simps ceilDiv_def slice_def
        sampleChunk_def indicesToAdd_def newSet_def setAdd_def Let_def)
  from virtualizeData_length_bounds [OF h1 h2] h3
  have "length (virtualizeData 1 (chartPoints [3, 9, 1, 5, 7, 2]))
          < length (chartPoints [3, 9, 1, 5, 7, 2])" by blast
  with h1 h2 h3 ev show ?thesis by blast
qed

subsection \<open>C4: the representatives of a chunk\<close>

text \<open>
  C4: when downsampling triggers, the output is the concatenation, chunk by chunk, of the
  representatives of the chunks that partition the input, each of at least one and at
  most \<open>ceil (length data / maxPoints)\<close> points. A chunk of one element yields
  that element. A longer chunk yields its elements at the indices 0, \<open>minIndex\<close>,
  \<open>maxIndex\<close> and \<open>length chunk - 1\<close>, in this order and each index once, where the
  element at \<open>minIndex\<close> has the least \<open>y\<close> of the chunk and the element at \<open>maxIndex\<close>
  the greatest. The order is the insertion order of the index set, not the order of the
  points in the chunk.
\<close>

theorem virtualizeData_representatives:
  assumes "maxPoints < length data"
  shows "virtualizeData maxPoints data =
           concat (map sampleChunk (chunks (ceilDiv (length data) maxPoints) data)) \<and>
         concat (chunks (ceilDiv (length data) maxPoints) data) = data \<and>
         (\<forall>chunk \<in> set (chunks (ceilDiv (length data) maxPoints) data).
            1 \<le> length chunk \<and> length chunk \<le> ceilDiv (length data) maxPoints \<and>
            (length chunk = 1 \<longrightarrow> sampleChunk chunk = chunk) \<and>
            (length chunk \<noteq> 1 \<longrightarrow>
               (\<exists>minIndex maxIndex.
                  minIndex < length chunk \<and> maxIndex < length chunk \<and>
                  pointValue (chunk ! minIndex) = Min (pointValue ` set chunk) \<and>
                  pointValue (chunk ! maxIndex) = Max (pointValue ` set chunk) \<and>
                  sampleChunk chunk =
                    map (nth chunk) (newSet [0, minIndex, maxIndex, length chunk - 1]))))"
proof (intro conjI ballI impI)
  show "virtualizeData maxPoints data =
          concat (map sampleChunk (chunks (ceilDiv (length data) maxPoints) data))"
    by (rule virtualizeData_chunks [OF assms])
  have "0 < ceilDiv (length data) maxPoints"
    using assms by (intro ceilDiv_positive) auto
  then show "concat (chunks (ceilDiv (length data) maxPoints) data) = data"
    by (rule concat_chunks)
next
  fix chunk :: "DataPoint list"
  assume c: "chunk \<in> set (chunks (ceilDiv (length data) maxPoints) data)"
  from chunks_member [OF c] show "1 \<le> length chunk"
    by (cases chunk) simp_all
  from chunks_member [OF c] show "length chunk \<le> ceilDiv (length data) maxPoints" ..
next
  fix chunk :: "DataPoint list" assume "length chunk = 1"
  then show "sampleChunk chunk = chunk" by (rule sampleChunk_single)
next
  fix chunk :: "DataPoint list"
  assume c: "chunk \<in> set (chunks (ceilDiv (length data) maxPoints) data)"
    and n1: "length chunk \<noteq> 1"
  from chunks_member [OF c] have "length chunk \<noteq> 0" by simp
  with n1 have "2 \<le> length chunk" by linarith
  then show "\<exists>minIndex maxIndex.
                  minIndex < length chunk \<and> maxIndex < length chunk \<and>
                  pointValue (chunk ! minIndex) = Min (pointValue ` set chunk) \<and>
                  pointValue (chunk ! maxIndex) = Max (pointValue ` set chunk) \<and>
                  sampleChunk chunk =
                    map (nth chunk) (newSet [0, minIndex, maxIndex, length chunk - 1])"
    by (rule sampleChunk_representatives)
qed


text \<open>
  Nine points with \<open>maxPoints = 2\<close> give chunks of five: \<open>[9, 5, 1, 5, 1]\<close> and
  \<open>[5, 9, 4, 3]\<close>. In the first the maximum (index 0) is emitted before the minimum
  (index 2); in the second the minimum 3 (index 3) is emitted before the maximum 9
  (index 1), against their order in the chunk.
\<close>

theorem virtualizeData_representatives_witness:
  "2 < length (chartPoints [9, 5, 1, 5, 1, 5, 9, 4, 3]) \<and>
   virtualizeData 2 (chartPoints [9, 5, 1, 5, 1, 5, 9, 4, 3]) =
     concat (map sampleChunk
       (chunks (ceilDiv (length (chartPoints [9, 5, 1, 5, 1, 5, 9, 4, 3])) 2)
          (chartPoints [9, 5, 1, 5, 1, 5, 9, 4, 3]))) \<and>
   map pointValue (virtualizeData 2 (chartPoints [9, 5, 1, 5, 1, 5, 9, 4, 3])) =
     [9, 1, 1, 5, 3, 9]"
proof -
  have h: "2 < length (chartPoints [9, 5, 1, 5, 1, 5, 9, 4, 3])"
    by (simp add: chartPoints_def)
  have ev: "map pointValue (virtualizeData 2 (chartPoints [9, 5, 1, 5, 1, 5, 9, 4, 3])) =
     [9, 1, 1, 5, 3, 9]"
    by (simp add: chartPoints_def virtualizeData_def virtualizeLoop.simps ceilDiv_def slice_def
        sampleChunk_def indicesToAdd_def newSet_def setAdd_def Let_def)
  from virtualizeData_representatives [OF h] h ev show ?thesis by blast
qed

section \<open>Properties of the parser\<close>

lemma parseLines_member:
  "r \<in> set (parseLines tm hs ls i acc) \<longleftrightarrow>
     r \<in> set acc \<or>
     (\<exists>k < length ls. length (parseCsvLine (ls ! k)) = length hs \<and>
        r = mapRow tm (i + k) (buildRow hs (parseCsvLine (ls ! k))) \<and> isValidSalesData r)"
proof (induction ls arbitrary: i acc)
  case Nil
  then show ?case by simp
next
  case (Cons line rest)
  have ex: "(\<exists>k < length (line # rest). P k) \<longleftrightarrow> P 0 \<or> (\<exists>k < length rest. P (Suc k))" for P
    by (auto simp: less_Suc_eq_0_disj)
  show ?case
    by (subst ex) (auto simp: Let_def Cons.IH)
qed

lemma natToString_nonempty: "natToString n \<noteq> []"
  by (subst natToString.simps) simp

lemma orElse_nonempty: "d \<noteq> [] \<Longrightarrow> orElse v d \<noteq> []"
  by (auto simp: orElse_def split: option.splits)


lemma numberOr_nonzero: "d \<noteq> 0 \<Longrightarrow> numberOr v d \<noteq> 0"
  by (auto simp: numberOr_def split: option.splits)





lemma isValidSalesData_mapRow:
  "isValidSalesData (mapRow tm i row) \<longleftrightarrow>
     isValid (tm (row ''date'')) \<and> 0 \<le> orNumber (parseFloat (row ''revenue'')) 0"
  by (simp add: isValidSalesData_def mapRow_def orElse_nonempty natToString_nonempty)

lemma parseCsvToSalesData_member:
  assumes "parseCsvToSalesData tm csvText = Inr records"
  shows "r \<in> set records \<longleftrightarrow>
     (\<exists>i. 1 \<le> i \<and> i < length (nonBlankLines csvText) \<and>
        length (parseCsvLine (nonBlankLines csvText ! i)) =
          length (map trim (split CHR '','' (nonBlankLines csvText ! 0))) \<and>
        r = mapRow tm i (buildRow (map trim (split CHR '','' (nonBlankLines csvText ! 0)))
                           (parseCsvLine (nonBlankLines csvText ! i))) \<and>
        isValidSalesData r)"
proof (cases "nonBlankLines csvText")
  case Nil
  with assms show ?thesis by (simp add: parseCsvToSalesData_def)
next
  case (Cons header rest)
  let ?hs = "map trim (split CHR '','' header)"
  have rec: "records = parseLines tm ?hs rest 1 []"
    using assms Cons by (simp add: parseCsvToSalesData_def Let_def)
  have "r \<in> set records \<longleftrightarrow>
      (\<exists>k < length rest. length (parseCsvLine (rest ! k)) = length ?hs \<and>
        r = mapRow tm (1 + k) (buildRow ?hs (parseCsvLine (rest ! k))) \<and> isValidSalesData r)"
    unfolding rec by (simp add: parseLines_member)
  also have "\<dots> \<longleftrightarrow>
      (\<exists>i. 1 \<le> i \<and> i < length (header # rest) \<and>
        length (parseCsvLine ((header # rest) ! i)) = length ?hs \<and>
        r = mapRow tm i (buildRow ?hs (parseCsvLine ((header # rest) ! i))) \<and>
        isValidSalesData r)"
  proof
    assume "\<exists>k < length rest. length (parseCsvLine (rest ! k)) = length ?hs \<and>
        r = mapRow tm (1 + k) (buildRow ?hs (parseCsvLine (rest ! k))) \<and> isValidSalesData r"
    then obtain k where "k < length rest" "length (parseCsvLine (rest ! k)) = length ?hs"
      "r = mapRow tm (1 + k) (buildRow ?hs (parseCsvLine (rest ! k)))" "isValidSalesData r"
      by blast
    then show "\<exists>i. 1 \<le> i \<and> i < length (header # rest) \<and>
        length (parseCsvLine ((header # rest) ! i)) = length ?hs \<and>
        r = mapRow tm i (buildRow ?hs (parseCsvLine ((header # rest) ! i))) \<and>
        isValidSalesData r"
      by (intro exI [of _ "Suc k"]) simp
  next
    assume "\<exists>i. 1 \<le> i \<and> i < length (header # rest) \<and>
        length (parseCsvLine ((header # rest) ! i)) = length ?hs \<and>
        r = mapRow tm i (buildRow ?hs (parseCsvLine ((header # rest) ! i))) \<and>
        isValidSalesData r"
    then obtain i where i: "1 \<le> i" "i < length (header # rest)"
      "length (parseCsvLine ((header # rest) ! i)) = length ?hs"
      "r = mapRow tm i (buildRow ?hs (parseCsvLine ((header # rest) ! i)))" "isValidSalesData r"
      by blast
    then obtain k where k: "i = Suc k" by (cases i) auto
    with i show "\<exists>k < length rest. length (parseCsvLine (rest ! k)) = length ?hs \<and>
        r = mapRow tm (1 + k) (buildRow ?hs (parseCsvLine (rest ! k))) \<and> isValidSalesData r"
      by (intro exI [of _ k]) simp
  qed
  finally show ?thesis by (simp add: Cons)
qed


text \<open>
  The bound of \<open>toNumber\<close> as a numeral, for the evaluation of \<^verbatim>\<open>parseFloat\<close> on
  concrete cells.
\<close>

lemma overflowBound_numeral [code]:
  "overflowBound =
     179769313486231580793728971405303415079934132710037826936173778980444968292764750946649017977587207096330286416692887910946555547851940402630657488671505820681908902000708383676273854845817711531764475730270069855571366959622842914819860834936475292719074168444365510704342711559699508093042880177904174497792"
  by (simp add: overflowBound_def)

text \<open>
  \<^verbatim>\<open>parseFloat\<close> on the literal \<^verbatim>\<open>Infinity\<close>, and the two rows of the fixture with an
  infinite revenue: the negative one fails \<^verbatim>\<open>revenue >= 0\<close> and is dropped, the positive
  one is truthy, so that \<^verbatim>\<open>|| 0\<close> keeps it, and the record has an infinite revenue.
\<close>

lemma parseFloat_Infinity:
  "parseFloat (Some ''Infinity'') = Infinity"
  "parseFloat (Some ''-Infinity'') = NegInfinity"
  "parseFloat (Some ''+Infinity'') = Infinity"
  by code_simp+

lemma infinityCsv_result:
  "parseCsvToSalesData isoMoment infinityCsv =
     Inr [\<lparr> id' = ''id8'', date = Moment 1759536000000, revenue = Infinity, orders = 1,
            customerId = ''c8'', productId = ''p8'', productName = None,
            category = ''Category'', region = ''Region'' \<rparr>]"
  by code_simp

text \<open>Evaluations of the fixtures, used by the examples below.\<close>

lemma mapRow_sel:
  "id' (mapRow tm i row) = orElse (row ''id'') (''order_'' @ natToString i)"
  "date (mapRow tm i row) = tm (row ''date'')"
  "revenue (mapRow tm i row) = orNumber (parseFloat (row ''revenue'')) 0"
  "orders (mapRow tm i row) = numberOr (parseInt (row ''orders'')) 1"
  "productName (mapRow tm i row) = None"
  "region (mapRow tm i row) = orElse (row ''region'') ''Unknown''"
  by (simp_all add: mapRow_def)









lemma sample_lines:
  "nonBlankLines generateSampleCsvContent = join '','' sampleHeaders # map (join '','') sampleRows"
  by code_simp

lemma sample_headers: "map trim (split CHR '','' (join '','' sampleHeaders)) = sampleHeaders"
  by code_simp

lemma sample_rows: "map parseCsvLine (map (join '','') sampleRows) = sampleRows"
  by code_simp

lemma sample_revenues:
  "map (\<lambda>row. parseFloat (Some (row ! 2))) sampleRows =
     [Num (12599 / 100), Num (895 / 10), Num (23475 / 100), Num (6725 / 100),
      Num (2999 / 100), Num (2999 / 100)]"
  by (simp add: sampleRows_def parseFloat_def trimStart_def isWhiteSpace_def isDigit_def
      digitsValue_def hexVal_def indexIn_def readExponent_def scale10_def toNumber_def
      overflowBound_def)

lemma isoMoment_sample_dates:
  "list_all (\<lambda>d. isValid (isoMoment (Some d)))
     [''2025-10-01'', ''2025-10-02'', ''2025-10-03'', ''2025-10-06'']"
  by code_simp

lemma negativeOrdersCsv_result:
  "parseCsvToSalesData isoMoment negativeOrdersCsv =
     Inr [\<lparr> id' = ''id6'', date = Moment 1759536000000, revenue = Num 10, orders = - 5,
            customerId = ''c6'', productId = ''p6'', productName = None,
            category = ''Category'', region = ''Region'' \<rparr>]"
  by code_simp

lemma productNameCsv_result:
  "parseCsvToSalesData isoMoment productNameCsv =
     Inr [\<lparr> id' = ''id1'', date = Moment 1759276800000, revenue = Num (21 / 2), orders = 2,
            customerId = ''c1'', productId = ''p1'', productName = None,
            category = ''Cat'', region = ''Region'' \<rparr>]"
  by code_simp

subsection \<open>C6: defaults\<close>




subsection \<open>C7: the sample text parses to six records\<close>

text \<open>
  C7: if the date library resolves the four dates of the sample, parsing the output of
  \<^verbatim>\<open>generateSampleCsvContent\<close> gives exactly six records, with the ids
  \<open>order_001\<close> to \<open>order_006\<close> in this order, all valid and with resolved dates, the
  first one in the region North America.
\<close>

theorem sample_roundtrip:
  assumes "\<forall>d \<in> set [''2025-10-01'', ''2025-10-02'', ''2025-10-03'', ''2025-10-06''].
             isValid (toMoment (Some d))"
  shows "\<exists>records. parseCsvToSalesData toMoment generateSampleCsvContent = Inr records \<and>
           length records = 6 \<and>
           map id' records = [''order_001'', ''order_002'', ''order_003'', ''order_004'',
                              ''order_005'', ''order_006''] \<and>
           list_all isValidSalesData records \<and>
           list_all (\<lambda>r. isValid (date r)) records \<and>
           region (records ! 0) = ''North America''"
proof -
  let ?records = "map (\<lambda>(i, cells). mapRow toMoment i (buildRow sampleHeaders cells))
                    (enumerate 1 sampleRows)"
  from assms have d: "isValid (toMoment (Some ''2025-10-01''))"
    "isValid (toMoment (Some ''2025-10-02''))" "isValid (toMoment (Some ''2025-10-03''))"
    "isValid (toMoment (Some ''2025-10-06''))" by simp_all
  have valid: "list_all isValidSalesData ?records"
    using sample_revenues d
    by (simp add: sampleRows_def sampleHeaders_def buildRow_def isValidSalesData_mapRow
        orNumber_def zero_number_def less_eq_number_def)
  have rows: "parseLines toMoment sampleHeaders (map (join '','') sampleRows) 1 [] = ?records"
    using sample_rows sample_revenues d
    by (simp add: sampleRows_def sampleHeaders_def buildRow_def isValidSalesData_mapRow
        orNumber_def zero_number_def less_eq_number_def del: join.simps)
  show ?thesis
  proof (intro exI [of _ ?records] conjI)
    show "parseCsvToSalesData toMoment generateSampleCsvContent = Inr ?records"
      by (simp only: parseCsvToSalesData_def sample_lines list.case Let_def sample_headers rows)
    show "length ?records = 6"
      by (simp add: sampleRows_def)
    show "map id' ?records =
       [''order_001'', ''order_002'', ''order_003'', ''order_004'', ''order_005'', ''order_006'']"
      by (simp add: sampleRows_def sampleHeaders_def buildRow_def mapRow_sel orElse_def)
    show "list_all isValidSalesData ?records" by (rule valid)
    show "list_all (\<lambda>r. isValid (date r)) ?records"
      using d by (simp add: sampleRows_def sampleHeaders_def buildRow_def mapRow_sel)
    show "region (?records ! 0) = ''North America''"
      by (simp add: sampleRows_def sampleHeaders_def buildRow_def mapRow_sel orElse_def)
  qed
qed

theorem sample_roundtrip_witness:
  "\<exists>records. parseCsvToSalesData isoMoment generateSampleCsvContent = Inr records \<and>
           length records = 6 \<and>
           map id' records = [''order_001'', ''order_002'', ''order_003'', ''order_004'',
                              ''order_005'', ''order_006''] \<and>
           list_all isValidSalesData records \<and>
           list_all (\<lambda>r. isValid (date r)) records \<and>
           region (records ! 0) = ''North America''"
proof -
  have "\<forall>d \<in> set [''2025-10-01'', ''2025-10-02'', ''2025-10-03'', ''2025-10-06''].
             isValid (isoMoment (Some d))"
    using isoMoment_sample_dates by (simp only: list_all_iff)
  then show ?thesis by (rule sample_roundtrip)
qed

subsection \<open>C9: constraints on accepted records\<close>

text \<open>
  C9 as stated asks that no record of the parser's output has fewer than one order. The
  validator tests the revenue and never the orders, and \<^verbatim>\<open>parseInt(row.orders) || 1\<close>
  keeps a negative number: the row with \<^verbatim>\<open>-5\<close> orders is accepted as it is.
\<close>

theorem parser_accepts_negative_orders:
  "\<exists>r. parseCsvToSalesData isoMoment negativeOrdersCsv = Inr [r] \<and> orders r = - 5 \<and>
       \<not> 1 \<le> orders r"
  by (simp add: negativeOrdersCsv_result)

text \<open>
  C9, amended: every record that the parser returns passes the validator, has a revenue
  that is not negative, and an integer number of orders that is not 0 (the number may be
  negative).
\<close>

theorem parseCsvToSalesData_record_constraints:
  assumes "parseCsvToSalesData toMoment csvText = Inr records"
  shows "\<forall>r \<in> set records. 0 \<le> revenue r \<and> orders r \<noteq> 0 \<and> isValidSalesData r"
proof
  fix r assume "r \<in> set records"
  then obtain i row where r: "r = mapRow toMoment i row" and v: "isValidSalesData r"
    unfolding parseCsvToSalesData_member [OF assms] by blast
  have "orders r \<noteq> 0"
    unfolding r by (simp add: mapRow_def numberOr_nonzero)
  with v show "0 \<le> revenue r \<and> orders r \<noteq> 0 \<and> isValidSalesData r"
    by (simp add: isValidSalesData_def)
qed

theorem parseCsvToSalesData_record_constraints_witness:
  "\<exists>r. parseCsvToSalesData isoMoment negativeOrdersCsv = Inr [r] \<and>
       0 \<le> revenue r \<and> orders r \<noteq> 0 \<and> isValidSalesData r"
proof -
  let ?r = "\<lparr> id' = ''id6'', date = Moment 1759536000000, revenue = Num 10, orders = - 5,
            customerId = ''c6'', productId = ''p6'', productName = None,
            category = ''Category'', region = ''Region'' \<rparr>"
  have "?r \<in> set [?r]" by simp
  with parseCsvToSalesData_record_constraints [OF negativeOrdersCsv_result]
  have "0 \<le> revenue ?r \<and> orders ?r \<noteq> 0 \<and> isValidSalesData ?r" by (rule bspec)
  with negativeOrdersCsv_result show ?thesis by (intro exI [of _ ?r] conjI) simp_all
qed

subsection \<open>C10: the parser never sets a product name\<close>

lemma mapSet_set: "set (mapSet m k v) \<subseteq> insert (k, v) (set m)"
  by (induction m) (auto split: if_splits)

lemma mapSet_pred:
  assumes "\<forall>x \<in> set m. P x" and "P (k, v)"
  shows "\<forall>x \<in> set (mapSet m k v). P x"
  using assms mapSet_set [of m k v] by blast

lemma productStep_names:
  assumes "productName item = None"
    and "\<forall>x \<in> set m. name (snd x) = ''Product '' @ fst x \<and> pm_productId (snd x) = fst x"
  shows "\<forall>x \<in> set (productStep random m item).
           name (snd x) = ''Product '' @ fst x \<and> pm_productId (snd x) = fst x"
proof -
  let ?k = "productId item"
  let ?P = "\<lambda>x. name (snd x) = ''Product '' @ fst x \<and> pm_productId (snd x) = fst x"
  define m1 where "m1 = (if map_of m ?k = None
             then mapSet m ?k
                    \<lparr> pm_productId = ?k, name = ''Product '' @ ?k, pm_category = category item,
                      pm_totalRevenue = 0, pm_totalOrders = 0, pm_averageOrderValue = 0,
                      pm_conversionRate = random (length m) * (1 / 10) + 2 / 100 \<rparr>
             else m)"
  have inv1: "\<forall>x \<in> set m1. ?P x"
  proof (cases "map_of m ?k = None")
    case True
    then have "m1 = mapSet m ?k
                    \<lparr> pm_productId = ?k, name = ''Product '' @ ?k, pm_category = category item,
                      pm_totalRevenue = 0, pm_totalOrders = 0, pm_averageOrderValue = 0,
                      pm_conversionRate = random (length m) * (1 / 10) + 2 / 100 \<rparr>"
      by (simp add: m1_def)
    moreover have "\<forall>x \<in> set (mapSet m ?k
                    \<lparr> pm_productId = ?k, name = ''Product '' @ ?k, pm_category = category item,
                      pm_totalRevenue = 0, pm_totalOrders = 0, pm_averageOrderValue = 0,
                      pm_conversionRate = random (length m) * (1 / 10) + 2 / 100 \<rparr>). ?P x"
      by (rule mapSet_pred [OF assms(2)]) simp
    ultimately show ?thesis by simp
  next
    case False
    then have "m1 = m" unfolding m1_def by (rule if_not_P)
    with assms(2) show ?thesis by simp
  qed
  show ?thesis
  proof (cases "map_of m1 ?k")
    case None
    then have "productStep random m item = m1"
      unfolding productStep_def Let_def m1_def [symmetric] by simp
    with inv1 show ?thesis by simp
  next
    case (Some product)
    then have "(?k, product) \<in> set m1" by (rule map_of_SomeD)
    with inv1 have "?P (?k, product)" by blast
    then have p: "name product = ''Product '' @ ?k" "pm_productId product = ?k" by simp_all
    let ?p3 = "product\<lparr> pm_totalRevenue := pm_totalRevenue product + revenue item,
                        pm_totalOrders := pm_totalOrders product + 1,
                        pm_averageOrderValue := (pm_totalRevenue product + revenue item) /
                           Num (real (pm_totalOrders product + 1)) \<rparr>"
    have eq: "productStep random m item = mapSet m1 ?k ?p3"
      unfolding productStep_def Let_def m1_def [symmetric] using Some assms(1) by simp
    have "?P (?k, ?p3)" using p by simp
    with inv1 show ?thesis unfolding eq by (intro mapSet_pred)
  qed
qed

lemma foldl_productStep_names:
  assumes "\<forall>item \<in> set data. productName item = None"
    and "\<forall>x \<in> set m. name (snd x) = ''Product '' @ fst x \<and> pm_productId (snd x) = fst x"
  shows "\<forall>x \<in> set (foldl (productStep random) m data).
           name (snd x) = ''Product '' @ fst x \<and> pm_productId (snd x) = fst x"
  using assms
proof (induction data arbitrary: m)
  case Nil
  then show ?case by simp
next
  case (Cons item data)
  from Cons.prems(1) have h: "productName item = None"
    and t: "\<forall>item \<in> set data. productName item = None" by simp_all
  have s: "\<forall>x \<in> set (productStep random m item).
          name (snd x) = ''Product '' @ fst x \<and> pm_productId (snd x) = fst x"
    by (rule productStep_names [OF h Cons.prems(2)])
  have "\<forall>x \<in> set (foldl (productStep random) (productStep random m item) data).
          name (snd x) = ''Product '' @ fst x \<and> pm_productId (snd x) = fst x"
    by (rule Cons.IH [OF t s])
  then show ?case by (simp only: foldl_Cons)
qed

text \<open>
  C10: every record that the parser returns has no product name, whatever the header and
  the row say; so on the parser's records \<^verbatim>\<open>calculateProductMetrics\<close> never replaces
  the default name, and every product is named \<open>Product\<close> followed by its id.
\<close>

theorem parser_never_sets_productName:
  assumes "parseCsvToSalesData toMoment csvText = Inr records"
  shows "(\<forall>r \<in> set records. productName r = None) \<and>
         (\<forall>p \<in> set (calculateProductMetrics random records).
            name p = ''Product '' @ pm_productId p)"
proof -
  have none: "\<forall>r \<in> set records. productName r = None"
  proof
    fix r assume "r \<in> set records"
    then obtain i row where "r = mapRow toMoment i row"
      unfolding parseCsvToSalesData_member [OF assms] by blast
    then show "productName r = None" by (simp add: mapRow_def)
  qed
  from foldl_productStep_names [OF none, of "[]" random]
  have "\<forall>x \<in> set (foldl (productStep random) [] records).
           name (snd x) = ''Product '' @ fst x \<and> pm_productId (snd x) = fst x" by simp
  then have "\<forall>p \<in> set (calculateProductMetrics random records).
            name p = ''Product '' @ pm_productId p"
    by (auto simp: calculateProductMetrics_def)
  with none show ?thesis by blast
qed

text \<open>
  The row of the first test of the import service has the product name \<open>Name\<close>; the
  record has none, and the product is called \<open>Product p1\<close>.
\<close>

theorem parser_never_sets_productName_witness:
  "\<exists>r. parseCsvToSalesData isoMoment productNameCsv = Inr [r] \<and> productName r = None \<and>
       map name (calculateProductMetrics (\<lambda>k. 0) [r]) = [''Product p1'']"
proof -
  let ?r = "\<lparr> id' = ''id1'', date = Moment 1759276800000, revenue = Num (21 / 2), orders = 2,
            customerId = ''c1'', productId = ''p1'', productName = None,
            category = ''Cat'', region = ''Region'' \<rparr>"
  note t = parser_never_sets_productName [OF productNameCsv_result, of "\<lambda>k. 0"]
  have "?r \<in> set [?r]" by simp
  with conjunct1 [OF t] have a: "productName ?r = None" by (rule bspec)
  have b: "\<forall>p \<in> set (calculateProductMetrics (\<lambda>k. 0) [?r]). name p = ''Product '' @ pm_productId p"
    by (rule conjunct2 [OF t])
  have c: "map pm_productId (calculateProductMetrics (\<lambda>k. 0) [?r]) = [''p1'']"
    by (simp add: calculateProductMetrics_def productStep_def Let_def)
  from b have "map name (calculateProductMetrics (\<lambda>k. 0) [?r]) =
      map (\<lambda>p. ''Product '' @ pm_productId p) (calculateProductMetrics (\<lambda>k. 0) [?r])"
    by (simp only: map_eq_conv)
  also have "\<dots> = map (\<lambda>i. ''Product '' @ i) (map pm_productId (calculateProductMetrics (\<lambda>k. 0) [?r]))"
    by (simp only: map_map comp_def)
  also have "\<dots> = [''Product p1'']" by (simp only: c) simp
  finally have "map name (calculateProductMetrics (\<lambda>k. 0) [?r]) = [''Product p1'']" .
  with productNameCsv_result a show ?thesis by (intro exI [of _ ?r] conjI) simp_all
qed

subsection \<open>C8: a failed fetch\<close>

text \<open>
  C8 as stated asks that after a failed fetch the record set is empty and never keeps the
  records it had before the import. \<^verbatim>\<open>importSalesDataFromCsv\<close> has no error handler:
  the error reaches the subscriber and the subject is not touched, so a service that
  held the four mock records still holds them.
\<close>

theorem import_failure_keeps_records:
  "fst (importSalesDataFromCsv isoMoment (Inl HttpError) loadedState) = Inl HttpError \<and>
   salesDataSubject (snd (importSalesDataFromCsv isoMoment (Inl HttpError) loadedState)) =
     mockSalesData \<and>
   salesDataSubject (snd (importSalesDataFromCsv isoMoment (Inl HttpError) loadedState)) \<noteq> []"
  by (simp add: importSalesDataFromCsv_def loadSalesDataFromCsv_def loadedState_def
      mockSalesData_def)

text \<open>
  C8, amended: a failed fetch in \<^verbatim>\<open>importSalesDataFromCsv\<close> or in
  \<^verbatim>\<open>importSalesDataFromFile\<close> is passed to the caller as an error value and leaves
  the state of the service as it was; a failed fetch in \<^verbatim>\<open>loadSampleDataFromAssets\<close>
  is caught there and the record set becomes empty. All three return: none fails beyond
  the error value.
\<close>

theorem failed_fetch_behaviour:
  "importSalesDataFromCsv toMoment (Inl e) st = (Inl e, st) \<and>
   importSalesDataFromFile toMoment (Inl e) st = (Inl e, st) \<and>
   salesDataSubject (loadSampleDataFromAssets toMoment (Inl e) st) = []"
  by (simp add: importSalesDataFromCsv_def importSalesDataFromFile_def parseUploadedFile_def
      loadSampleDataFromAssets_def loadSalesDataFromCsv_def)

theorem failed_fetch_behaviour_witness:
  "importSalesDataFromCsv isoMoment (Inl HttpError) loadedState = (Inl HttpError, loadedState) \<and>
   importSalesDataFromFile isoMoment (Inl HttpError) loadedState = (Inl HttpError, loadedState) \<and>
   salesDataSubject (loadSampleDataFromAssets isoMoment (Inl HttpError) loadedState) = []"
  by (rule failed_fetch_behaviour)

end
